theory Spec2Isabelle
  imports Main "HOL-Library.Word"
begin

section \<open>Prepaid-card purchase backend: data model\<close>

text \<open>
  The program is a FastAPI application (\<^verbatim>\<open>main.py\<close>) with two stateful handlers,
  \<^verbatim>\<open>create_checkout\<close> and \<^verbatim>\<open>confirm\<close>, and one pure handler, \<^verbatim>\<open>get_config\<close>.
  Python strings are modelled as \<^typ>\<open>string\<close> holding their UTF-8 bytes, Python integers
  as \<^typ>\<open>int\<close>, \<^verbatim>\<open>Optional[T]\<close> as \<^typ>\<open>'a option\<close>, \<^verbatim>\<open>Literal[...]\<close> types as
  datatypes, and a raised exception as the left summand of a result.
\<close>

subsection \<open>Literal types\<close>

datatype provider = stripe | mock

datatype status = pending | paid | failed

datatype delivery = recogida | envio

subsection \<open>Exceptions\<close>

text \<open>
  \<^verbatim>\<open>HTTPException(status_code, detail)\<close> is the only exception the handlers construct
  themselves. The other constructors stand for exceptions raised by the libraries the
  handlers call: pydantic's validation error, \<^verbatim>\<open>bson.errors.InvalidId\<close>, the
  \<^verbatim>\<open>TypeError\<close> of subscripting \<^verbatim>\<open>None\<close>, the failures of the document store, and any
  exception of the payment library (with its message).
\<close>

datatype exn =
    HTTPException int string
  | ValidationError
  | InvalidId string
  | TypeError
  | StorageUnavailable
  | DuplicateKeyError
  | ProviderError string

subsection \<open>Text helpers\<close>

text \<open>The accented letters and the euro sign of the source's literals, in UTF-8.\<close>

definition a_acute :: string where "a_acute = [CHR 0xC3, CHR 0xA1]"
definition e_acute :: string where "e_acute = [CHR 0xC3, CHR 0xA9]"
definition i_acute :: string where "i_acute = [CHR 0xC3, CHR 0xAD]"
definition o_acute :: string where "o_acute = [CHR 0xC3, CHR 0xB3]"
definition euro :: string where "euro = [CHR 0xE2, CHR 0x82, CHR 0xAC]"
definition nl :: string where "nl = [CHR 0x0A]"

text \<open>Python's \<^verbatim>\<open>str\<close> of an integer, as the f-strings of the handlers use it.\<close>

definition digit10 :: "nat \<Rightarrow> char" where
  "digit10 d = ''0123456789'' ! d"

fun str_nat :: "nat \<Rightarrow> string" where
  "str_nat n = (if n < 10 then [digit10 n] else str_nat (n div 10) @ [digit10 (n mod 10)])"

declare str_nat.simps [simp del]

definition str_int :: "int \<Rightarrow> string" where
  "str_int i = (if i < 0 then ''-'' @ str_nat (nat (- i)) else str_nat (nat i))"

text \<open>Python's \<^verbatim>\<open>str\<close> of an optional string inside an f-string: \<^verbatim>\<open>None\<close> prints as \<^verbatim>\<open>None\<close>.\<close>

definition str_opt :: "string option \<Rightarrow> string" where
  "str_opt x = (case x of None \<Rightarrow> ''None'' | Some s \<Rightarrow> s)"

text \<open>Truthiness of an optional string: \<^verbatim>\<open>None\<close> and the empty string are false.\<close>

definition truthy :: "string option \<Rightarrow> bool" where
  "truthy x = (case x of None \<Rightarrow> False | Some s \<Rightarrow> s \<noteq> [])"

subsection \<open>Object identifiers\<close>

text \<open>
  A \<^verbatim>\<open>bson.ObjectId\<close> is twelve bytes, here a 96-bit word. \<^verbatim>\<open>str(oid)\<close> is its 24
  lowercase hexadecimal digits; \<^verbatim>\<open>ObjectId(s)\<close> accepts a string of 24 hexadecimal
  digits of either case and raises \<^verbatim>\<open>InvalidId\<close> on any other string. (A string of
  24 characters that separates digit pairs by white space, which \<^verbatim>\<open>bytes.fromhex\<close>
  would read as fewer than twelve bytes, counts as invalid here.)
\<close>

type_synonym oid = "96 word"

definition hex_digit :: "nat \<Rightarrow> char" where
  "hex_digit d = ''0123456789abcdef'' ! d"

definition hex_value :: "char \<Rightarrow> nat option" where
  "hex_value c = map_of
     [(CHR ''0'', 0), (CHR ''1'', 1), (CHR ''2'', 2), (CHR ''3'', 3), (CHR ''4'', 4),
      (CHR ''5'', 5), (CHR ''6'', 6), (CHR ''7'', 7), (CHR ''8'', 8), (CHR ''9'', 9),
      (CHR ''a'', 10), (CHR ''b'', 11), (CHR ''c'', 12), (CHR ''d'', 13), (CHR ''e'', 14),
      (CHR ''f'', 15),
      (CHR ''A'', 10), (CHR ''B'', 11), (CHR ''C'', 12), (CHR ''D'', 13), (CHR ''E'', 14),
      (CHR ''F'', 15)] c"

fun to_hex :: "nat \<Rightarrow> nat \<Rightarrow> string" where
  "to_hex 0 n = []"
| "to_hex (Suc k) n = to_hex k (n div 16) @ [hex_digit (n mod 16)]"

fun from_hex :: "nat \<Rightarrow> string \<Rightarrow> nat option" where
  "from_hex acc [] = Some acc"
| "from_hex acc (c # cs) =
     (case hex_value c of None \<Rightarrow> None | Some v \<Rightarrow> from_hex (acc * 16 + v) cs)"

definition str_oid :: "oid \<Rightarrow> string" where
  "str_oid i = to_hex 24 (unat i)"

definition ObjectId :: "string \<Rightarrow> exn + oid" where
  "ObjectId s =
     (if length s = 24 then
        (case from_hex 0 s of None \<Rightarrow> Inl (InvalidId s) | Some n \<Rightarrow> Inr (word_of_nat n))
      else Inl (InvalidId s))"

subsection \<open>Schemas\<close>

text \<open>\<^verbatim>\<open>schemas.PrepaidCardPurchase\<close>; timestamps are clock readings.\<close>

record PrepaidCardPurchase =
  customer_name :: string
  customer_email :: string
  customer_phone :: string
  amount_selected :: int
  card_price :: int
  total_price :: int
  payment_provider :: provider
  payment_status :: status
  payment_reference :: "string option"
  delivery_method :: delivery
  created_at :: "nat option"
  updated_at :: "nat option"

text \<open>
  The model's constructor validates the three \<^verbatim>\<open>ge=0\<close> fields and raises pydantic's
  validation error otherwise.
\<close>

definition PrepaidCardPurchase_validate :: "PrepaidCardPurchase \<Rightarrow> exn + PrepaidCardPurchase" where
  "PrepaidCardPurchase_validate p =
     (if amount_selected p < 0 \<or> card_price p < 0 \<or> total_price p < 0
      then Inl ValidationError else Inr p)"

text \<open>\<^verbatim>\<open>main.PricingConfig\<close>, \<^verbatim>\<open>main.CreateCheckoutPayload\<close>, \<^verbatim>\<open>main.CheckoutResponse\<close>.\<close>

record PricingConfig =
  card_issue_price :: int
  topup_options :: "int list"
  currency :: string
  config_payment_provider :: provider

record CreateCheckoutPayload =
  name :: string
  email :: string
  phone :: string
  amount :: int
  payload_delivery_method :: delivery

record CheckoutResponse =
  response_provider :: provider
  response_url :: "string option"
  response_message :: "string option"
  response_purchase_id :: "string option"

subsection \<open>External collaborators\<close>

text \<open>
  The keyword arguments of \<^verbatim>\<open>stripe.checkout.Session.create\<close> are dictionaries and
  lists of strings and integers.
\<close>

datatype json = JStr string | JInt int | JList "json list" | JObj "(string \<times> json) list"

text \<open>
  What the handlers read of a checkout session: \<^verbatim>\<open>url\<close>, \<^verbatim>\<open>metadata\<close> (absent or a
  dictionary of strings), \<^verbatim>\<open>payment_status\<close> and \<^verbatim>\<open>customer_details.email\<close>.
\<close>

record CustomerDetails =
  details_email :: "string option"

record Session =
  session_url :: "string option"
  metadata :: "(string \<times> string) list option"
  session_payment_status :: string
  customer_details :: "CustomerDetails option"

text \<open>
  Everything a request takes from outside the handlers: the process environment, the
  clock (\<open>now k\<close> is the reading of the \<open>k\<close>-th call of \<^verbatim>\<open>datetime.now\<close> in the
  request), the identifier the database driver generates for an insertion, the answers of
  the payment service (a session or a raised exception, which covers a failing
  \<^verbatim>\<open>import stripe\<close> as well), and \<^verbatim>\<open>str\<close> on exception objects, which the libraries
  define.
\<close>

record env =
  STRIPE_SECRET_KEY :: "string option"
  FRONTEND_URL :: "string option"
  now :: "nat \<Rightarrow> nat"
  inserted_id :: oid
  Session_create :: "(string \<times> json) list \<Rightarrow> exn + Session"
  Session_retrieve :: "string \<Rightarrow> exn + Session"
  str_exn :: "exn \<Rightarrow> string"

text \<open>
  The mutable world: \<^verbatim>\<open>database.db\<close>, which is \<^verbatim>\<open>None\<close> or a database mapping each
  collection name to its documents by \<^verbatim>\<open>_id\<close>, and the lines printed so far.
\<close>

type_synonym collection = "oid \<rightharpoonup> PrepaidCardPurchase"

record world =
  db :: "(string \<Rightarrow> collection) option"
  stdout :: "string list"

definition print :: "string \<Rightarrow> world \<Rightarrow> world" where
  "print s w = w\<lparr>stdout := stdout w @ [s]\<rparr>"

text \<open>
  pymongo's \<^verbatim>\<open>update_one({"_id": i}, {"$set": ...})\<close> without upsert: the document with
  that identifier is rewritten, and nothing happens when there is none.
\<close>

definition update_one ::
  "string \<Rightarrow> oid \<Rightarrow> (PrepaidCardPurchase \<Rightarrow> PrepaidCardPurchase) \<Rightarrow>
   (string \<Rightarrow> collection) \<Rightarrow> (string \<Rightarrow> collection)" where
  "update_one cname i f d =
     (case d cname i of None \<Rightarrow> d | Some p \<Rightarrow> d(cname := (d cname)(i \<mapsto> f p)))"

text \<open>
  Modelled from the spec: \<^verbatim>\<open>database.create_document\<close> is imported by \<^verbatim>\<open>main.py\<close> but
  its module is not among the sources. The specification's purchase store gives
  \<^verbatim>\<open>create(record) -> Identifier\<close>: it inserts the record as it is given, returns a
  unique identifier, and fails with \<^verbatim>\<open>StorageUnavailable\<close> when the database is not
  initialised. The identifier is the one the driver generates; an insertion under an
  identifier already in the collection is refused, as the database does.
\<close>

definition create_document ::
  "env \<Rightarrow> string \<Rightarrow> PrepaidCardPurchase \<Rightarrow> world \<Rightarrow> (exn + string) \<times> world" where
  "create_document env cname data w =
     (case db w of
        None \<Rightarrow> (Inl StorageUnavailable, w)
      | Some d \<Rightarrow>
          (if d cname (inserted_id env) \<noteq> None then (Inl DuplicateKeyError, w)
           else (Inr (str_oid (inserted_id env)),
                 w\<lparr>db := Some (d(cname := (d cname)(inserted_id env \<mapsto> data)))\<rparr>)))"

section \<open>Configuration\<close>

text \<open>\<^verbatim>\<open>PAYMENT_PROVIDER = "stripe" if STRIPE_SECRET_KEY else "mock"\<close>\<close>

definition PAYMENT_PROVIDER :: "env \<Rightarrow> provider" where
  "PAYMENT_PROVIDER e = (if truthy (STRIPE_SECRET_KEY e) then stripe else mock)"

text \<open>\<^verbatim>\<open>PricingConfig()\<close>: every field takes its default.\<close>

definition PricingConfig_default :: "env \<Rightarrow> PricingConfig" where
  "PricingConfig_default e =
     \<lparr>card_issue_price = 5, topup_options = [10, 20, 30, 50], currency = ''eur'',
      config_payment_provider = PAYMENT_PROVIDER e\<rparr>"

definition get_config :: "env \<Rightarrow> PricingConfig" where
  "get_config e = PricingConfig_default e"

section \<open>Purchase flow\<close>

text \<open>\<^verbatim>\<open>_send_confirmation_email\<close>: five printed lines, nothing else.\<close>

definition send_confirmation_email :: "string \<Rightarrow> string \<Rightarrow> string \<Rightarrow> world \<Rightarrow> world" where
  "send_confirmation_email to_email subject content w =
     print ''=== END EMAIL ===''
       (print content
         (print (''Subject: '' @ subject)
           (print (''To: '' @ to_email)
             (print ''=== EMAIL CONFIRMATION (log) ==='' w))))"

definition email_subject :: string where
  "email_subject = ''Confirmaci'' @ o_acute @ ''n de compra - Tarjeta Prepago''"

text \<open>\<^verbatim>\<open>os.getenv("FRONTEND_URL", "http://localhost:3000")\<close>\<close>

definition frontend_url :: "env \<Rightarrow> string" where
  "frontend_url e = (case FRONTEND_URL e of None \<Rightarrow> ''http://localhost:3000'' | Some u \<Rightarrow> u)"

definition str_delivery :: "delivery \<Rightarrow> string" where
  "str_delivery m = (case m of recogida \<Rightarrow> ''recogida'' | envio \<Rightarrow> ''envio'')"

subsection \<open>Checkout creation\<close>

text \<open>The record built at lines 112 to 124 of \<^verbatim>\<open>create_checkout\<close>.\<close>

definition new_purchase ::
  "env \<Rightarrow> PricingConfig \<Rightarrow> CreateCheckoutPayload \<Rightarrow> int \<Rightarrow> exn + PrepaidCardPurchase" where
  "new_purchase e config payload total' =
     PrepaidCardPurchase_validate
       \<lparr>customer_name = name payload,
        customer_email = email payload,
        customer_phone = phone payload,
        amount_selected = amount payload,
        card_price = card_issue_price config,
        total_price = total',
        payment_provider = PAYMENT_PROVIDER e,
        payment_status = pending,
        payment_reference = None,
        delivery_method = payload_delivery_method payload,
        created_at = Some (now e 0),
        updated_at = Some (now e 1)\<rparr>"

text \<open>The two line items and the keyword arguments of the session-creation call.\<close>

definition line_items :: "PricingConfig \<Rightarrow> CreateCheckoutPayload \<Rightarrow> json" where
  "line_items config payload =
     JList
       [JObj [(''price_data'',
               JObj [(''currency'', JStr (currency config)),
                     (''product_data'',
                      JObj [(''name'', JStr (''Tarjeta Prepago - Emisi'' @ o_acute @ ''n''))]),
                     (''unit_amount'', JInt (card_issue_price config * 100))]),
              (''quantity'', JInt 1)],
        JObj [(''price_data'',
               JObj [(''currency'', JStr (currency config)),
                     (''product_data'',
                      JObj [(''name'',
                             JStr (''Recarga inicial '' @ str_int (amount payload) @ euro))]),
                     (''unit_amount'', JInt (amount payload * 100))]),
              (''quantity'', JInt 1)]]"

definition session_params ::
  "PricingConfig \<Rightarrow> CreateCheckoutPayload \<Rightarrow> string \<Rightarrow> string \<Rightarrow> string \<Rightarrow>
   (string \<times> json) list" where
  "session_params config payload purchase_id success_url cancel_url =
     [(''mode'', JStr ''payment''),
      (''line_items'', line_items config payload),
      (''customer_email'', JStr (email payload)),
      (''metadata'',
       JObj [(''purchase_id'', JStr purchase_id),
             (''customer_name'', JStr (name payload)),
             (''customer_phone'', JStr (phone payload)),
             (''delivery_method'', JStr (str_delivery (payload_delivery_method payload)))]),
      (''success_url'', JStr (success_url @ ''&session_id={CHECKOUT_SESSION_ID}'')),
      (''cancel_url'', JStr cancel_url)]"

text \<open>
  The \<^verbatim>\<open>try\<close> block of the real-provider branch (lines 132 to 172): it returns the
  response of a created session, or falls through after printing the caught exception.
\<close>

definition stripe_checkout ::
  "env \<Rightarrow> PricingConfig \<Rightarrow> CreateCheckoutPayload \<Rightarrow> string \<Rightarrow> string \<Rightarrow> string \<Rightarrow> world \<Rightarrow>
   CheckoutResponse option \<times> world" where
  "stripe_checkout e config payload purchase_id success_url cancel_url w =
     (case Session_create e (session_params config payload purchase_id success_url cancel_url) of
        Inr session \<Rightarrow>
          (Some \<lparr>response_provider = stripe, response_url = session_url session,
                 response_message = None, response_purchase_id = Some purchase_id\<rparr>, w)
      | Inl ex \<Rightarrow> (None, print (''Stripe error: '' @ str_exn e ex) w))"

definition mock_email_content :: "CreateCheckoutPayload \<Rightarrow> int \<Rightarrow> string \<Rightarrow> string" where
  "mock_email_content payload total' purchase_id =
     ''Hola '' @ name payload @ '','' @ nl @ nl @
     ''Gracias por tu compra. Hemos recibido el pago de '' @ str_int total' @ euro @ ''. '' @
     ''Podr'' @ a_acute @ ''s recoger tu tarjeta en el local o solicitar env'' @ i_acute @
     ''o seg'' @ [CHR 0xC3, CHR 0xBA] @ ''n tu selecci'' @ o_acute @ ''n.'' @ nl @ nl @
     ''ID de compra: '' @ purchase_id @ nl @
     ''M'' @ e_acute @ ''todo de entrega: '' @ str_delivery (payload_delivery_method payload) @
     nl @ nl @
     ''Gracias por elegirnos.''"

text \<open>The \<^verbatim>\<open>$set\<close> document of line 178, applied to a stored record.\<close>

definition mock_paid :: "env \<Rightarrow> PrepaidCardPurchase \<Rightarrow> PrepaidCardPurchase" where
  "mock_paid e p =
     p\<lparr>payment_status := paid, updated_at := Some (now e 2),
       payment_reference := Some ''mock-ok''\<rparr>"

text \<open>
  The mock part (lines 174 to 194): the record is set to paid with reference
  \<^verbatim>\<open>mock-ok\<close>, the confirmation is printed, and the mock response is returned.
\<close>

definition mock_checkout ::
  "env \<Rightarrow> CreateCheckoutPayload \<Rightarrow> int \<Rightarrow> string \<Rightarrow> string \<Rightarrow> world \<Rightarrow>
   (exn + CheckoutResponse) \<times> world" where
  "mock_checkout e payload total' purchase_id success_url w =
     (case db w of
        None \<Rightarrow> (Inl TypeError, w)
      | Some d \<Rightarrow>
          (case ObjectId purchase_id of
             Inl ex \<Rightarrow> (Inl ex, w)
           | Inr i \<Rightarrow>
               (let w1 = w\<lparr>db := Some (update_one ''prepaidcardpurchase'' i (mock_paid e) d)\<rparr>;
                    w2 = send_confirmation_email (email payload) email_subject
                           (mock_email_content payload total' purchase_id) w1
                in (Inr \<lparr>response_provider = mock, response_url = Some success_url,
                         response_message =
                           Some (''Pago simulado con '' @ e_acute @ ''xito''),
                         response_purchase_id = Some purchase_id\<rparr>, w2))))"

definition create_checkout ::
  "env \<Rightarrow> CreateCheckoutPayload \<Rightarrow> world \<Rightarrow> (exn + CheckoutResponse) \<times> world" where
  "create_checkout e payload w =
     (let config = PricingConfig_default e in
      if amount payload \<notin> set (topup_options config)
      then (Inl (HTTPException 400 (''Monto de recarga no v'' @ a_acute @ ''lido'')), w)
      else
        (let total' = card_issue_price config + amount payload in
         case new_purchase e config payload total' of
           Inl ex \<Rightarrow> (Inl ex, w)
         | Inr purchase \<Rightarrow>
             (case create_document e ''prepaidcardpurchase'' purchase w of
                (Inl ex, w1) \<Rightarrow> (Inl ex, w1)
              | (Inr purchase_id, w1) \<Rightarrow>
                  (let success_url = frontend_url e @ ''/exito?purchase_id='' @ purchase_id;
                       cancel_url = frontend_url e @ ''/cancelado?purchase_id='' @ purchase_id
                   in if PAYMENT_PROVIDER e = stripe
                      then
                        (case stripe_checkout e config payload purchase_id success_url cancel_url w1 of
                           (Some r, w2) \<Rightarrow> (Inr r, w2)
                         | (None, w2) \<Rightarrow> mock_checkout e payload total' purchase_id success_url w2)
                      else mock_checkout e payload total' purchase_id success_url w1))))"

subsection \<open>Confirmation\<close>

definition confirm_email_content :: "string option \<Rightarrow> string \<Rightarrow> string" where
  "confirm_email_content nm pid =
     ''Hola '' @ str_opt nm @ '','' @ nl @ nl @
     ''Hemos recibido tu pago correctamente. '' @
     ''ID de compra: '' @ pid @ nl @
     ''Te enviaremos instrucciones para recoger tu tarjeta en el local o env'' @ i_acute @
     ''o.'' @ nl @ nl @ ''Gracias.''"

text \<open>Truthiness of \<^verbatim>\<open>session.metadata\<close>: absent and the empty dictionary are false.\<close>

definition has_metadata :: "Session \<Rightarrow> bool" where
  "has_metadata session = (case metadata session of None \<Rightarrow> False | Some m \<Rightarrow> m \<noteq> [])"

definition metadata_get :: "Session \<Rightarrow> string \<Rightarrow> string option" where
  "metadata_get session k = (case metadata session of None \<Rightarrow> None | Some m \<Rightarrow> map_of m k)"

text \<open>The \<^verbatim>\<open>$set\<close> document of line 212, applied to a stored record.\<close>

definition session_paid :: "env \<Rightarrow> string \<Rightarrow> PrepaidCardPurchase \<Rightarrow> PrepaidCardPurchase" where
  "session_paid e session_id p =
     p\<lparr>payment_status := paid, payment_reference := Some session_id,
       updated_at := Some (now e 0)\<rparr>"

text \<open>
  The \<^verbatim>\<open>try\<close> block of the real-provider branch of \<^verbatim>\<open>confirm\<close> (lines 204 to 228),
  with every exception it can raise as a left result.
\<close>

definition confirm_try ::
  "env \<Rightarrow> string \<Rightarrow> string option \<Rightarrow> world \<Rightarrow> (exn + (string \<times> string) list) \<times> world" where
  "confirm_try e session_id purchase_id w =
     (case Session_retrieve e session_id of
        Inl ex \<Rightarrow> (Inl ex, w)
      | Inr session \<Rightarrow>
          (let pid = (if has_metadata session then metadata_get session ''purchase_id''
                      else purchase_id)
           in if session_payment_status session = ''paid'' \<and> truthy pid
              then
                (case pid of
                   None \<Rightarrow> (Inl (HTTPException 400 ''Pago no confirmado''), w)
                 | Some p \<Rightarrow>
                     (case db w of
                        None \<Rightarrow> (Inl TypeError, w)
                      | Some d \<Rightarrow>
                          (case ObjectId p of
                             Inl ex \<Rightarrow> (Inl ex, w)
                           | Inr i \<Rightarrow>
                               (let w1 = w\<lparr>db := Some (update_one ''prepaidcardpurchase'' i
                                            (session_paid e session_id) d)\<rparr>;
                                    em = (case customer_details session of
                                            None \<Rightarrow> None | Some cd \<Rightarrow> details_email cd);
                                    nm = (if has_metadata session
                                          then metadata_get session ''customer_name''
                                          else Some ''Cliente'');
                                    w2 = (case em of
                                            None \<Rightarrow> w1
                                          | Some a \<Rightarrow>
                                              if a \<noteq> []
                                              then send_confirmation_email a email_subject
                                                     (confirm_email_content nm p) w1
                                              else w1)
                                in (Inr [(''status'', ''ok''), (''purchase_id'', p)], w2)))))
              else (Inl (HTTPException 400 ''Pago no confirmado''), w)))"

definition confirm ::
  "env \<Rightarrow> string option \<Rightarrow> string option \<Rightarrow> world \<Rightarrow>
   (exn + (string \<times> string) list) \<times> world" where
  "confirm e session_id purchase_id w =
     (if PAYMENT_PROVIDER e = stripe then
        (case session_id of
           None \<Rightarrow> (Inl (HTTPException 400 ''Falta session_id''), w)
         | Some sid \<Rightarrow>
             if sid = [] then (Inl (HTTPException 400 ''Falta session_id''), w)
             else
               (case confirm_try e sid purchase_id w of
                  (Inr r, w1) \<Rightarrow> (Inr r, w1)
                | (Inl ex, w1) \<Rightarrow>
                    (Inl (HTTPException 400 (''Error confirmando el pago: '' @ str_exn e ex)),
                     w1)))
      else
        (case purchase_id of
           None \<Rightarrow> (Inl (HTTPException 400 ''Falta purchase_id''), w)
         | Some p \<Rightarrow>
             if p = [] then (Inl (HTTPException 400 ''Falta purchase_id''), w)
             else (Inr [(''status'', ''ok''), (''purchase_id'', p)], w)))"

section \<open>Reading the store, and sample requests\<close>

text \<open>The document stored under an identifier, if the database is there and has one.\<close>

definition find_one :: "world \<Rightarrow> string \<Rightarrow> oid \<Rightarrow> PrepaidCardPurchase option" where
  "find_one w cname i = (case db w of None \<Rightarrow> None | Some d \<Rightarrow> d cname i)"

text \<open>
  What \<^verbatim>\<open>create_checkout\<close> passes to the payment service, and what it answers on the
  mock path, once the record is stored under the identifier of this request.
\<close>

definition checkout_params :: "env \<Rightarrow> CreateCheckoutPayload \<Rightarrow> (string \<times> json) list" where
  "checkout_params e payload =
     session_params (PricingConfig_default e) payload (str_oid (inserted_id e))
       (frontend_url e @ ''/exito?purchase_id='' @ str_oid (inserted_id e))
       (frontend_url e @ ''/cancelado?purchase_id='' @ str_oid (inserted_id e))"

definition mock_response :: "env \<Rightarrow> CheckoutResponse" where
  "mock_response e =
     \<lparr>response_provider = mock,
      response_url = Some (frontend_url e @ ''/exito?purchase_id='' @ str_oid (inserted_id e)),
      response_message = Some (''Pago simulado con '' @ e_acute @ ''xito''),
      response_purchase_id = Some (str_oid (inserted_id e))\<rparr>"

text \<open>
  One request is one step of the system: a checkout creation or a confirmation, each with
  its own answers from outside.
\<close>

inductive step :: "world \<Rightarrow> world \<Rightarrow> bool" where
  checkout: "create_checkout e payload w = (r, w') \<Longrightarrow> step w w'"
| confirmation: "confirm e session_id purchase_id w = (r, w') \<Longrightarrow> step w w'"

text \<open>
  Concrete inputs for the worked instances below. \<open>str_exn_sample\<close> prints an
  \<^verbatim>\<open>HTTPException\<close> as current Starlette does (status code, colon, detail).
\<close>

definition str_exn_sample :: "exn \<Rightarrow> string" where
  "str_exn_sample ex =
     (case ex of
        HTTPException c d \<Rightarrow> str_int c @ '': '' @ d
      | ValidationError \<Rightarrow> ''validation error''
      | InvalidId s \<Rightarrow> s @ '' is not a valid ObjectId''
      | TypeError \<Rightarrow> ''object is not subscriptable''
      | StorageUnavailable \<Rightarrow> ''Database not available''
      | DuplicateKeyError \<Rightarrow> ''duplicate key error''
      | ProviderError m \<Rightarrow> m)"

definition session_unpaid :: Session where
  "session_unpaid =
     \<lparr>session_url = Some ''https://checkout.example/cs_test_1'',
      metadata = Some [(''purchase_id'', ''0000000000000000000000ab'')],
      session_payment_status = ''unpaid'', customer_details = None\<rparr>"

definition session_paid_bare :: Session where
  "session_paid_bare =
     \<lparr>session_url = None, metadata = None, session_payment_status = ''paid'',
      customer_details = None\<rparr>"

definition env_mock :: env where
  "env_mock =
     \<lparr>STRIPE_SECRET_KEY = None, FRONTEND_URL = None, now = (\<lambda>k. 1000 + k),
      inserted_id = 171,
      Session_create = (\<lambda>_. Inl (ProviderError ''unreachable'')),
      Session_retrieve = (\<lambda>_. Inl (ProviderError ''unreachable'')),
      str_exn = str_exn_sample\<rparr>"

definition env_stripe_down :: env where
  "env_stripe_down = env_mock\<lparr>STRIPE_SECRET_KEY := Some ''sk_test_1''\<rparr>"

definition env_stripe_unpaid :: env where
  "env_stripe_unpaid = env_stripe_down\<lparr>Session_retrieve := (\<lambda>_. Inr session_unpaid)\<rparr>"

definition env_stripe_paid_bare :: env where
  "env_stripe_paid_bare = env_stripe_down\<lparr>Session_retrieve := (\<lambda>_. Inr session_paid_bare)\<rparr>"

definition payload_20 :: CreateCheckoutPayload where
  "payload_20 =
     \<lparr>name = ''Ana'', email = ''ana@example.com'', phone = ''600100200'', amount = 20,
      payload_delivery_method = recogida\<rparr>"

definition payload_15 :: CreateCheckoutPayload where
  "payload_15 = payload_20\<lparr>amount := 15\<rparr>"

definition purchase_ab :: PrepaidCardPurchase where
  "purchase_ab =
     \<lparr>customer_name = ''Eva'', customer_email = ''eva@example.com'',
      customer_phone = ''600300400'', amount_selected = 10, card_price = 5,
      total_price = 15, payment_provider = stripe, payment_status = pending,
      payment_reference = None, delivery_method = envio, created_at = Some 10,
      updated_at = Some 10\<rparr>"

definition world_empty :: world where
  "world_empty = \<lparr>db = Some (\<lambda>_. Map.empty), stdout = []\<rparr>"

definition world_ab :: world where
  "world_ab =
     \<lparr>db = Some ((\<lambda>_. Map.empty)(''prepaidcardpurchase'' := [171 \<mapsto> purchase_ab])),
      stdout = []\<rparr>"

section \<open>Auxiliary facts\<close>

subsection \<open>Identifiers print and parse back\<close>

lemma hex_value_digit: "d < 16 \<Longrightarrow> hex_value (hex_digit d) = Some d"
proof -
  assume "d < 16"
  then have "d \<in> set [0..<16]" by simp
  then show ?thesis
   unfolding hex_value_def hex_digit_def
   by (simp add: upt_rec numeral_eq_Suc) (elim disjE; simp)
qed

lemma from_hex_append:
  "from_hex a (xs @ ys) = (case from_hex a xs of None \<Rightarrow> None | Some b \<Rightarrow> from_hex b ys)"
  by (induction xs arbitrary: a) (auto split: option.splits)

lemma from_hex_to_hex: "from_hex a (to_hex k n) = Some (a * 16 ^ k + n mod 16 ^ k)"
proof (induction k arbitrary: n a)
  case 0 then show ?case by simp
next
  case (Suc k)
  have "n mod 16 < 16" by simp
  then have hv: "hex_value (hex_digit (n mod 16)) = Some (n mod 16)" by (rule hex_value_digit)
  have "(n div 16) mod 16 ^ k * 16 + n mod 16 = n mod (16 * 16 ^ k)"
    by (metis mod_mult2_eq mult.commute)
  then show ?case
    by (simp add: from_hex_append Suc hv algebra_simps)
qed

lemma length_to_hex: "length (to_hex k n) = k"
  by (induction k arbitrary: n) auto

lemma ObjectId_str_oid: "ObjectId (str_oid i) = Inr i"
proof -
  have "unat i < 2 ^ 96" using unsigned_less [of i] by simp
  then have "unat i mod 16 ^ 24 = unat i" by simp
  then show ?thesis
    by (simp add: ObjectId_def str_oid_def length_to_hex from_hex_to_hex)
qed

lemma db_print: "db (print s w) = db w"
  by (simp add: print_def)

lemma db_send_confirmation_email: "db (send_confirmation_email a b c w) = db w"
  by (simp add: send_confirmation_email_def db_print)

lemma new_purchase_Inr:
  assumes "new_purchase e config payload t = Inr p"
  shows "p = \<lparr>customer_name = name payload, customer_email = email payload,
        customer_phone = phone payload, amount_selected = amount payload,
        card_price = card_issue_price config, total_price = t,
        payment_provider = PAYMENT_PROVIDER e, payment_status = pending,
        payment_reference = None, delivery_method = payload_delivery_method payload,
        created_at = Some (now e 0), updated_at = Some (now e 1)\<rparr>"
  using assms by (simp add: new_purchase_def PrepaidCardPurchase_validate_def split: if_splits)

lemma new_purchase_valid:
  assumes "amount payload \<in> set (topup_options (PricingConfig_default e))"
  shows "\<exists>p. new_purchase e (PricingConfig_default e) payload
           (card_issue_price (PricingConfig_default e) + amount payload) = Inr p"
  using assms by (auto simp add: new_purchase_def PrepaidCardPurchase_validate_def PricingConfig_default_def)

subsection \<open>Paths of checkout creation\<close>

lemma mock_checkout_Some:
  assumes "db w = Some d"
  shows "mock_checkout e payload t (str_oid i) su w =
           (Inr \<lparr>response_provider = mock, response_url = Some su,
                 response_message = Some (''Pago simulado con '' @ e_acute @ ''xito''),
                 response_purchase_id = Some (str_oid i)\<rparr>,
            send_confirmation_email (email payload) email_subject
              (mock_email_content payload t (str_oid i))
              (w\<lparr>db := Some (update_one ''prepaidcardpurchase'' i (mock_paid e) d)\<rparr>))"
  using assms by (simp add: mock_checkout_def ObjectId_str_oid Let_def)

lemma stripe_checkout_cases:
  assumes "stripe_checkout e config payload pid su cu w = (r, w')"
  shows "db w' = db w \<and>
     (case Session_create e (session_params config payload pid su cu) of
        Inl ex \<Rightarrow> r = None
      | Inr s \<Rightarrow> r = Some \<lparr>response_provider = stripe, response_url = session_url s,
                 response_message = None, response_purchase_id = Some pid\<rparr> \<and> w' = w)"
  using assms by (auto simp add: stripe_checkout_def db_print split: sum.splits)

lemma create_document_cases:
  assumes "create_document e cname p w = (r, w')"
  shows "(w' = w \<and> (\<exists>ex. r = Inl ex)) \<or>
         (\<exists>d. db w = Some d \<and> d cname (inserted_id e) = None \<and> r = Inr (str_oid (inserted_id e)) \<and>
            w' = w\<lparr>db := Some (d(cname := (d cname)(inserted_id e \<mapsto> p)))\<rparr>)"
  using assms by (auto simp add: create_document_def split: option.splits if_splits)

text \<open>Every outcome of \<^verbatim>\<open>create_checkout\<close>, by the path taken.\<close>

lemma create_checkout_outcome:
  assumes "create_checkout e payload w = (r, w')"
  shows "((\<exists>ex. r = Inl ex) \<and> w' = w) \<or>
         (\<exists>d p0. db w = Some d \<and> d ''prepaidcardpurchase'' (inserted_id e) = None \<and>
            new_purchase e (PricingConfig_default e) payload
              (card_issue_price (PricingConfig_default e) + amount payload) = Inr p0 \<and>
            ((\<exists>s. PAYMENT_PROVIDER e = stripe \<and> Session_create e (checkout_params e payload) = Inr s \<and>
                r = Inr \<lparr>response_provider = stripe, response_url = session_url s,
                        response_message = None,
                        response_purchase_id = Some (str_oid (inserted_id e))\<rparr> \<and>
                db w' = Some (d(''prepaidcardpurchase'' :=
                          (d ''prepaidcardpurchase'')(inserted_id e \<mapsto> p0)))) \<or>
             ((PAYMENT_PROVIDER e = mock \<or>
               (\<exists>ex. Session_create e (checkout_params e payload) = Inl ex)) \<and>
              r = Inr (mock_response e) \<and>
              db w' = Some (d(''prepaidcardpurchase'' :=
                          (d ''prepaidcardpurchase'')(inserted_id e \<mapsto> mock_paid e p0))))))"
proof (cases "amount payload \<in> set (topup_options (PricingConfig_default e))")
  case False
  with assms have "r = Inl (HTTPException 400 (''Monto de recarga no v'' @ a_acute @ ''lido'')) \<and> w' = w"
    by (auto simp add: create_checkout_def Let_def)
  then show ?thesis by blast
next
  case True
  let ?cfg = "PricingConfig_default e"
  let ?t = "card_issue_price ?cfg + amount payload"
  let ?C = "''prepaidcardpurchase''"
  from new_purchase_valid [OF True] obtain p0 where p0: "new_purchase e ?cfg payload ?t = Inr p0" by blast
  obtain r1 w1 where cd: "create_document e ?C p0 w = (r1, w1)" by force
  from create_document_cases [OF cd] show ?thesis
  proof
    assume "w1 = w \<and> (\<exists>ex. r1 = Inl ex)"
    then obtain ex where "w1 = w" "r1 = Inl ex" by blast
    with assms True p0 cd have "w' = w \<and> r = Inl ex" by (simp add: create_checkout_def Let_def)
    then show ?thesis by simp
  next
    assume "\<exists>d. db w = Some d \<and> d ?C (inserted_id e) = None \<and> r1 = Inr (str_oid (inserted_id e)) \<and>
            w1 = w\<lparr>db := Some (d(?C := (d ?C)(inserted_id e \<mapsto> p0)))\<rparr>"
    then obtain d where d: "db w = Some d" "d ?C (inserted_id e) = None" "r1 = Inr (str_oid (inserted_id e))"
       "w1 = w\<lparr>db := Some (d(?C := (d ?C)(inserted_id e \<mapsto> p0)))\<rparr>" by blast
    let ?d1 = "d(?C := (d ?C)(inserted_id e \<mapsto> p0))"
    let ?pid = "str_oid (inserted_id e)"
    let ?su = "frontend_url e @ ''/exito?purchase_id='' @ ?pid"
    let ?cu = "frontend_url e @ ''/cancelado?purchase_id='' @ ?pid"
    have dbw1: "db w1 = Some ?d1" using d by simp
    have upd: "update_one ?C (inserted_id e) f ?d1 = d(?C := (d ?C)(inserted_id e \<mapsto> f p0))" for f
      by (simp add: update_one_def)
    have mock: "r = Inr (mock_response e) \<and>
        db w' = Some (d(?C := (d ?C)(inserted_id e \<mapsto> mock_paid e p0)))"
      if "db v = Some ?d1" and "mock_checkout e payload ?t ?pid ?su v = (r, w')" for v
      using that mock_checkout_Some [OF that(1), of e payload ?t "inserted_id e" ?su] upd
      by (auto simp add: mock_response_def db_send_confirmation_email)
    show ?thesis
    proof (cases "PAYMENT_PROVIDER e = stripe")
      case False
      then have m: "PAYMENT_PROVIDER e = mock" by (cases "PAYMENT_PROVIDER e") auto
      from False assms True p0 cd d have "mock_checkout e payload ?t ?pid ?su w1 = (r, w')"
        by (simp add: create_checkout_def Let_def)
      from mock [OF dbw1 this] d p0 m show ?thesis by blast
    next
      case stripe: True
      obtain r2 w2 where sc: "stripe_checkout e ?cfg payload ?pid ?su ?cu w1 = (r2, w2)" by force
      note scc = stripe_checkout_cases [OF sc]
      have dbw2: "db w2 = Some ?d1" using scc dbw1 by simp
      show ?thesis
      proof (cases "Session_create e (checkout_params e payload)")
        case (Inl ex)
        with scc have "r2 = None" by (simp add: checkout_params_def)
        with assms True p0 cd d stripe sc have "mock_checkout e payload ?t ?pid ?su w2 = (r, w')"
          by (simp add: create_checkout_def Let_def)
        from mock [OF dbw2 this] d p0 Inl show ?thesis by blast
      next
        case (Inr s)
        with scc have r2: "r2 = Some \<lparr>response_provider = stripe, response_url = session_url s,
                 response_message = None, response_purchase_id = Some ?pid\<rparr>" and "w2 = w1"
          by (simp_all add: checkout_params_def)
        with assms True p0 cd d stripe sc have "w' = w2 \<and> r = Inr \<lparr>response_provider = stripe, response_url = session_url s,
                 response_message = None, response_purchase_id = Some ?pid\<rparr>"
          by (simp add: create_checkout_def Let_def)
        with dbw2 d p0 stripe Inr show ?thesis by blast
      qed
    qed
  qed
qed

lemma new_purchase_prices:
  assumes "new_purchase e (PricingConfig_default e) payload
              (card_issue_price (PricingConfig_default e) + amount payload) = Inr p0"
  shows "total_price p0 = card_price p0 + amount_selected p0"
    and "payment_status p0 = pending"
    and "payment_provider p0 = PAYMENT_PROVIDER e"
  using new_purchase_Inr [OF assms] by simp_all

lemma mock_paid_fields:
  "payment_status (mock_paid e p) = paid"
  "payment_reference (mock_paid e p) = Some ''mock-ok''"
  "payment_provider (mock_paid e p) = payment_provider p"
  "total_price (mock_paid e p) = total_price p"
  "card_price (mock_paid e p) = card_price p"
  "amount_selected (mock_paid e p) = amount_selected p"
  by (simp_all add: mock_paid_def)

lemma stripe_checkout_raise:
  assumes "Session_create e (session_params config payload pid su cu) = Inl ex"
  shows "stripe_checkout e config payload pid su cu w =
           (None, print (''Stripe error: '' @ str_exn e ex) w)"
  using assms by (simp add: stripe_checkout_def)

lemma create_document_Some:
  assumes "db w = Some d" and "d cname (inserted_id e) = None"
  shows "create_document e cname p w =
     (Inr (str_oid (inserted_id e)),
      w\<lparr>db := Some (d(cname := (d cname)(inserted_id e \<mapsto> p)))\<rparr>)"
  using assms by (simp add: create_document_def)

lemma create_checkout_returns_mock:
  assumes valid: "amount payload \<in> set (topup_options (PricingConfig_default e))"
    and db: "db w = Some d"
    and fresh: "d ''prepaidcardpurchase'' (inserted_id e) = None"
    and path: "PAYMENT_PROVIDER e = mock \<or>
               (\<exists>ex. Session_create e (checkout_params e payload) = Inl ex)"
  shows "\<exists>w'. create_checkout e payload w = (Inr (mock_response e), w')"
proof -
  let ?cfg = "PricingConfig_default e"
  let ?t = "card_issue_price ?cfg + amount payload"
  let ?C = "''prepaidcardpurchase''"
  let ?pid = "str_oid (inserted_id e)"
  let ?su = "frontend_url e @ ''/exito?purchase_id='' @ ?pid"
  from new_purchase_valid [OF valid] obtain p0
    where p0: "new_purchase e ?cfg payload ?t = Inr p0" by blast
  let ?w1 = "w\<lparr>db := Some (d(?C := (d ?C)(inserted_id e \<mapsto> p0)))\<rparr>"
  note cd = create_document_Some [OF db fresh, where p = p0]
  have mock: "\<exists>w'. mock_checkout e payload ?t ?pid ?su v = (Inr (mock_response e), w')"
    if "db v = Some d1" for v d1
    using mock_checkout_Some [OF that, of e payload ?t "inserted_id e" ?su]
    by (simp add: mock_response_def)
  show ?thesis
  proof (cases "PAYMENT_PROVIDER e = stripe")
    case False
    have "db ?w1 = Some (d(?C := (d ?C)(inserted_id e \<mapsto> p0)))" by simp
    from mock [OF this] False valid p0 cd show ?thesis
      by (simp add: create_checkout_def Let_def)
  next
    case True
    with path obtain ex where ex: "Session_create e (checkout_params e payload) = Inl ex"
      by auto
    let ?w2 = "print (''Stripe error: '' @ str_exn e ex) ?w1"
    have "db ?w2 = Some (d(?C := (d ?C)(inserted_id e \<mapsto> p0)))" by (simp add: db_print)
    from mock [OF this] True valid p0 cd
      stripe_checkout_raise [OF ex [unfolded checkout_params_def], of ?w1]
    show ?thesis
      by (simp add: create_checkout_def Let_def)
  qed
qed

subsection \<open>Paths of confirmation\<close>

lemma confirm_try_outcome:
  assumes "confirm_try e sid purchase_id w = (r, w')"
  shows "((\<exists>ex. r = Inl ex) \<and> w' = w) \<or>
         (\<exists>s p d i. Session_retrieve e sid = Inr s \<and> session_payment_status s = ''paid'' \<and>
            (if has_metadata s then metadata_get s ''purchase_id'' else purchase_id) = Some p \<and>
            p \<noteq> [] \<and> db w = Some d \<and> ObjectId p = Inr i \<and>
            r = Inr [(''status'', ''ok''), (''purchase_id'', p)] \<and>
            db w' = Some (update_one ''prepaidcardpurchase'' i (session_paid e sid) d))"
proof (cases "Session_retrieve e sid")
  case (Inl ex)
  with assms show ?thesis by (auto simp add: confirm_try_def)
next
  case (Inr s)
  let ?pid = "if has_metadata s then metadata_get s ''purchase_id'' else purchase_id"
  show ?thesis
  proof (cases "session_payment_status s = ''paid'' \<and> truthy ?pid")
    case False
    with assms Inr have "r = Inl (HTTPException 400 ''Pago no confirmado'') \<and> w' = w"
      by (auto simp add: confirm_try_def Let_def)
    then show ?thesis by blast
  next
    case True
    then obtain p where p: "?pid = Some p" "p \<noteq> []"
      by (auto simp add: truthy_def split: option.splits)
    show ?thesis
    proof (cases "db w")
      case None
      with assms Inr True p have "r = Inl TypeError \<and> w' = w"
        by (auto simp add: confirm_try_def Let_def)
      then show ?thesis by blast
    next
      case (Some d)
      show ?thesis
      proof (cases "ObjectId p")
        case (Inl ex)
        with assms Inr True p Some have "r = Inl ex \<and> w' = w"
          by (auto simp add: confirm_try_def Let_def)
        then show ?thesis by blast
      next
        case (Inr i)
        with assms \<open>Session_retrieve e sid = Inr s\<close> True p Some
        have "r = Inr [(''status'', ''ok''), (''purchase_id'', p)] \<and>
              db w' = Some (update_one ''prepaidcardpurchase'' i (session_paid e sid) d)"
          by (auto simp add: confirm_try_def Let_def db_send_confirmation_email
                   split: option.splits if_splits)
        with \<open>Session_retrieve e sid = Inr s\<close> True p Some Inr show ?thesis by blast
      qed
    qed
  qed
qed

lemma confirm_try_not_paid:
  assumes "Session_retrieve e sid = Inr s" and "session_payment_status s \<noteq> ''paid''"
  shows "confirm_try e sid purchase_id w = (Inl (HTTPException 400 ''Pago no confirmado''), w)"
  using assms by (simp add: confirm_try_def Let_def)

lemma confirm_not_paid:
  assumes "PAYMENT_PROVIDER e = stripe" and "sid \<noteq> []"
    and "Session_retrieve e sid = Inr s" and "session_payment_status s \<noteq> ''paid''"
  shows "confirm e (Some sid) purchase_id w =
     (Inl (HTTPException 400 (''Error confirmando el pago: '' @
            str_exn e (HTTPException 400 ''Pago no confirmado''))), w)"
  using assms confirm_try_not_paid [OF assms(3,4)] by (simp add: confirm_def)

text \<open>Every outcome of \<^verbatim>\<open>confirm\<close>, by the path taken.\<close>

lemma confirm_outcome:
  assumes "confirm e session_id purchase_id w = (r, w')"
  shows "(w' = w \<and> PAYMENT_PROVIDER e = stripe \<and> \<not> truthy session_id \<and> r = Inl (HTTPException 400 ''Falta session_id'')) \<or>
         (w' = w \<and> PAYMENT_PROVIDER e = mock \<and> \<not> truthy purchase_id \<and> r = Inl (HTTPException 400 ''Falta purchase_id'')) \<or>
         (w' = w \<and> PAYMENT_PROVIDER e = mock \<and> (\<exists>p. purchase_id = Some p \<and> p \<noteq> [] \<and> r = Inr [(''status'', ''ok''), (''purchase_id'', p)])) \<or>
         (w' = w \<and> PAYMENT_PROVIDER e = stripe \<and> truthy session_id \<and> (\<exists>ex. r = Inl (HTTPException 400 (''Error confirmando el pago: '' @ str_exn e ex)))) \<or>
         (PAYMENT_PROVIDER e = stripe \<and> (\<exists>sid d i p. session_id = Some sid \<and> sid \<noteq> [] \<and> db w = Some d \<and>
             r = Inr [(''status'', ''ok''), (''purchase_id'', p)] \<and>
             db w' = Some (update_one ''prepaidcardpurchase'' i (session_paid e sid) d)))"
proof (cases "PAYMENT_PROVIDER e = stripe")
  case False
  then have m: "PAYMENT_PROVIDER e = mock" by (cases "PAYMENT_PROVIDER e") auto
  with assms show ?thesis
    by (cases purchase_id) (auto simp add: confirm_def truthy_def split: if_splits)
next
  case True
  show ?thesis
  proof (cases "truthy session_id")
    case False
    with assms True show ?thesis
      by (cases session_id) (auto simp add: confirm_def truthy_def split: if_splits)
  next
    case t: True
    then obtain sid where sid: "session_id = Some sid" "sid \<noteq> []"
      by (auto simp add: truthy_def split: option.splits)
    obtain r1 w1 where ct: "confirm_try e sid purchase_id w = (r1, w1)" by force
    from confirm_try_outcome [OF ct] show ?thesis
    proof
      assume "(\<exists>ex. r1 = Inl ex) \<and> w1 = w"
      then obtain ex where "r1 = Inl ex" "w1 = w" by blast
      with assms True sid ct have "w' = w \<and> r = Inl (HTTPException 400 (''Error confirmando el pago: '' @ str_exn e ex))"
        by (auto simp add: confirm_def)
      with True t show ?thesis by blast
    next
      assume "\<exists>s p d i. Session_retrieve e sid = Inr s \<and> session_payment_status s = ''paid'' \<and>
            (if has_metadata s then metadata_get s ''purchase_id'' else purchase_id) = Some p \<and>
            p \<noteq> [] \<and> db w = Some d \<and> ObjectId p = Inr i \<and>
            r1 = Inr [(''status'', ''ok''), (''purchase_id'', p)] \<and>
            db w1 = Some (update_one ''prepaidcardpurchase'' i (session_paid e sid) d)"
      then obtain p d i where "db w = Some d" "r1 = Inr [(''status'', ''ok''), (''purchase_id'', p)]"
        "db w1 = Some (update_one ''prepaidcardpurchase'' i (session_paid e sid) d)" by blast
      with assms True sid ct have "db w = Some d \<and> r = Inr [(''status'', ''ok''), (''purchase_id'', p)] \<and>
        db w' = Some (update_one ''prepaidcardpurchase'' i (session_paid e sid) d)"
        by (auto simp add: confirm_def)
      with True sid show ?thesis by blast
    qed
  qed
qed

subsection \<open>What a request does to a stored record\<close>

lemma update_one_find:
  "update_one cname j f d c i =
     (if c = cname \<and> i = j then map_option f (d c i) else d c i)"
  by (auto simp add: update_one_def split: option.splits)

lemma session_paid_fields:
  "payment_status (session_paid e sid p) = paid"
  "payment_reference (session_paid e sid p) = Some sid"
  by (simp_all add: session_paid_def)

lemma create_checkout_keeps:
  assumes "create_checkout e payload w = (r, w')" and "find_one w c i = Some p"
  shows "find_one w' c i = Some p"
proof -
  from create_checkout_outcome [OF assms(1)]
  consider "w' = w"
    | d x where "db w = Some d" "d ''prepaidcardpurchase'' (inserted_id e) = None"
        "db w' = Some (d(''prepaidcardpurchase'' :=
                   (d ''prepaidcardpurchase'')(inserted_id e \<mapsto> x)))"
    by blast
  then show ?thesis
  proof cases
    case 1
    with assms(2) show ?thesis by simp
  next
    case 2
    with assms(2) show ?thesis by (auto simp add: find_one_def)
  qed
qed

lemma confirm_keeps:
  assumes "confirm e session_id purchase_id w = (r, w')"
  shows "find_one w' c i = find_one w c i \<or>
         (\<exists>sid. find_one w' c i = map_option (session_paid e sid) (find_one w c i))"
proof -
  from confirm_outcome [OF assms]
  consider "w' = w"
    | sid d j where "db w = Some d"
        "db w' = Some (update_one ''prepaidcardpurchase'' j (session_paid e sid) d)"
    by blast
  then show ?thesis
  proof cases
    case 1
    then show ?thesis by simp
  next
    case 2
    then show ?thesis by (auto simp add: find_one_def update_one_find)
  qed
qed

lemma step_status:
  assumes "step w w'" and "find_one w c i = Some p"
  shows "\<exists>p'. find_one w' c i = Some p' \<and>
              (payment_status p' = payment_status p \<or> payment_status p' = paid)"
  using assms
proof (cases rule: step.cases)
  case (checkout e payload r)
  from create_checkout_keeps [OF checkout assms(2)] show ?thesis by simp
next
  case (confirmation e session_id purchase_id r)
  from confirm_keeps [OF confirmation, of c i] assms(2) show ?thesis
    by (auto simp add: session_paid_fields)
qed

lemma steps_status:
  assumes "step\<^sup>*\<^sup>* w w'" and "find_one w c i = Some p"
  shows "\<exists>p'. find_one w' c i = Some p' \<and>
              (payment_status p' = payment_status p \<or> payment_status p' = paid)"
  using assms
proof (induction rule: rtranclp_induct)
  case base
  then show ?case by simp
next
  case (step y z)
  then obtain q where q: "find_one y c i = Some q"
    "payment_status q = payment_status p \<or> payment_status q = paid" by blast
  from step_status [OF step.hyps(2) q(1)] q(2) show ?case by auto
qed

section \<open>Configuration endpoint\<close>

text \<open>
  C9. \<^verbatim>\<open>get_config\<close> is a total function of the environment with no failing branch, and
  its result is the default pricing configuration: issuance price 5, top-up options
  10, 20, 30 and 50, currency \<^verbatim>\<open>eur\<close>, and the process-wide payment provider.
\<close>

theorem get_config_defaults:
  "get_config e =
     \<lparr>card_issue_price = 5, topup_options = [10, 20, 30, 50], currency = ''eur'',
      config_payment_provider = PAYMENT_PROVIDER e\<rparr>"
  by (simp add: get_config_def PricingConfig_default_def)

section \<open>Checkout creation: rejected amounts\<close>

text \<open>
  C5. When the requested amount is not one of the configured top-up options,
  \<^verbatim>\<open>create_checkout\<close> raises the HTTP 400 exception for an invalid amount and leaves the
  world, and so the purchase store, exactly as it was: no record is created.
\<close>

theorem create_checkout_invalid_amount:
  assumes "amount payload \<notin> set (topup_options (PricingConfig_default e))"
  shows "create_checkout e payload w =
           (Inl (HTTPException 400 (''Monto de recarga no v'' @ a_acute @ ''lido'')), w)"
  using assms by (simp add: create_checkout_def Let_def)

theorem create_checkout_invalid_amount_witness:
  "amount payload_15 \<notin> set (topup_options (PricingConfig_default env_mock)) \<and>
   create_checkout env_mock payload_15 world_ab =
     (Inl (HTTPException 400 (''Monto de recarga no v'' @ a_acute @ ''lido'')), world_ab)"
proof -
  have h: "amount payload_15 \<notin> set (topup_options (PricingConfig_default env_mock))"
    by (simp add: payload_15_def payload_20_def PricingConfig_default_def)
  from create_checkout_invalid_amount [OF h, of world_ab] h show ?thesis by simp
qed

section \<open>Confirmation in mock mode\<close>

text \<open>
  C4. In mock mode \<^verbatim>\<open>confirm\<close>, given any non-empty purchase identifier, returns the
  dictionary with status \<^verbatim>\<open>ok\<close> and that identifier, whatever the world is (with or
  without a database, with or without such a record), and returns the world unchanged:
  the store is neither consulted nor written.
\<close>

theorem confirm_mock_echo:
  assumes "PAYMENT_PROVIDER e = mock" and "p \<noteq> []"
  shows "confirm e session_id (Some p) w = (Inr [(''status'', ''ok''), (''purchase_id'', p)], w)"
  using assms by (simp add: confirm_def)

theorem confirm_mock_echo_witness:
  "PAYMENT_PROVIDER env_mock = mock \<and> ''never-created'' \<noteq> [] \<and>
   confirm env_mock None (Some ''never-created'') world_empty =
     (Inr [(''status'', ''ok''), (''purchase_id'', ''never-created'')], world_empty)"
proof -
  have h: "PAYMENT_PROVIDER env_mock = mock"
    by (simp add: PAYMENT_PROVIDER_def env_mock_def truthy_def)
  have n: "''never-created'' \<noteq> []" by simp
  from confirm_mock_echo [OF h n, of None world_empty] h show ?thesis by simp
qed

section \<open>Checkout creation: the mock path\<close>

text \<open>
  C3. In mock mode, for a request whose amount is one of the configured top-up options,
  whenever \<^verbatim>\<open>create_checkout\<close> returns a response, that response names the mock provider
  and the identifier of the record this request created, and the store then holds under
  that identifier a record with payment status \<^verbatim>\<open>paid\<close> and payment reference
  \<^verbatim>\<open>mock-ok\<close>.
\<close>

theorem create_checkout_mock_paid:
  assumes "PAYMENT_PROVIDER e = mock"
    and "amount payload \<in> set (topup_options (PricingConfig_default e))"
    and "create_checkout e payload w = (Inr r, w')"
  shows "response_provider r = mock \<and>
         response_purchase_id r = Some (str_oid (inserted_id e)) \<and>
         (\<exists>p. find_one w' ''prepaidcardpurchase'' (inserted_id e) = Some p \<and>
              payment_status p = paid \<and> payment_reference p = Some ''mock-ok'')"
  using create_checkout_outcome [OF assms(3)] assms(1)
  by (auto simp add: mock_response_def find_one_def mock_paid_fields)

theorem create_checkout_mock_paid_witness:
  "PAYMENT_PROVIDER env_mock = mock \<and>
   amount payload_20 \<in> set (topup_options (PricingConfig_default env_mock)) \<and>
   (\<exists>r w'. create_checkout env_mock payload_20 world_empty = (Inr r, w') \<and>
      response_provider r = mock \<and>
      response_purchase_id r = Some ''0000000000000000000000ab'' \<and>
      (\<exists>p. find_one w' ''prepaidcardpurchase'' 171 = Some p \<and>
           payment_status p = paid \<and> payment_reference p = Some ''mock-ok''))"
proof -
  have h1: "PAYMENT_PROVIDER env_mock = mock" by code_simp
  have h2: "amount payload_20 \<in> set (topup_options (PricingConfig_default env_mock))"
    by code_simp
  have r: "fst (create_checkout env_mock payload_20 world_empty) = Inr (mock_response env_mock)"
    by code_simp
  then have h3: "create_checkout env_mock payload_20 world_empty =
      (Inr (mock_response env_mock), snd (create_checkout env_mock payload_20 world_empty))"
    by (metis prod.collapse)
  have i: "inserted_id env_mock = 171" by (simp add: env_mock_def)
  have s: "str_oid 171 = ''0000000000000000000000ab''" by code_simp
  from create_checkout_mock_paid [OF h1 h2 h3] h1 h2 h3 show ?thesis
    unfolding i s by blast
qed

text \<open>
  C1. In real-provider mode, when the amount is valid, the record has been stored (the
  database is there and the identifier is new) and the session-creation call raises an
  exception, \<^verbatim>\<open>create_checkout\<close> still returns a response. The response names the mock
  provider, and the stored record is paid with reference \<^verbatim>\<open>mock-ok\<close>, while its
  \<^verbatim>\<open>payment_provider\<close> field still says \<^verbatim>\<open>stripe\<close>.
\<close>

theorem create_checkout_stripe_fallback:
  assumes "PAYMENT_PROVIDER e = stripe"
    and "amount payload \<in> set (topup_options (PricingConfig_default e))"
    and "db w = Some d"
    and "d ''prepaidcardpurchase'' (inserted_id e) = None"
    and "Session_create e (checkout_params e payload) = Inl ex"
  shows "\<exists>r w' p. create_checkout e payload w = (Inr r, w') \<and>
           response_provider r = mock \<and>
           response_purchase_id r = Some (str_oid (inserted_id e)) \<and>
           find_one w' ''prepaidcardpurchase'' (inserted_id e) = Some p \<and>
           payment_status p = paid \<and> payment_reference p = Some ''mock-ok'' \<and>
           payment_provider p = stripe"
proof -
  from create_checkout_returns_mock [OF assms(2) assms(3) assms(4)] assms(5)
  obtain w' where run: "create_checkout e payload w = (Inr (mock_response e), w')" by blast
  from create_checkout_outcome [OF run] assms(5) obtain p0 where
    p0: "new_purchase e (PricingConfig_default e) payload
           (card_issue_price (PricingConfig_default e) + amount payload) = Inr p0"
    and w': "db w' = Some (d(''prepaidcardpurchase'' :=
               (d ''prepaidcardpurchase'')(inserted_id e \<mapsto> mock_paid e p0)))"
    using assms(3) by auto
  have "find_one w' ''prepaidcardpurchase'' (inserted_id e) = Some (mock_paid e p0)"
    using w' by (simp add: find_one_def)
  moreover have "payment_provider (mock_paid e p0) = stripe"
    using new_purchase_prices(3) [OF p0] assms(1) by (simp add: mock_paid_fields)
  ultimately show ?thesis
    using run by (simp add: mock_response_def mock_paid_fields)
qed

theorem create_checkout_stripe_fallback_witness:
  "PAYMENT_PROVIDER env_stripe_down = stripe \<and>
   amount payload_20 \<in> set (topup_options (PricingConfig_default env_stripe_down)) \<and>
   db world_empty = Some (\<lambda>_. Map.empty) \<and>
   Session_create env_stripe_down (checkout_params env_stripe_down payload_20) =
     Inl (ProviderError ''unreachable'') \<and>
   (\<exists>r w' p. create_checkout env_stripe_down payload_20 world_empty = (Inr r, w') \<and>
      response_provider r = mock \<and>
      response_purchase_id r = Some ''0000000000000000000000ab'' \<and>
      find_one w' ''prepaidcardpurchase'' 171 = Some p \<and>
      payment_status p = paid \<and> payment_reference p = Some ''mock-ok'' \<and>
      payment_provider p = stripe)"
proof -
  have h1: "PAYMENT_PROVIDER env_stripe_down = stripe" by code_simp
  have h2: "amount payload_20 \<in> set (topup_options (PricingConfig_default env_stripe_down))"
    by code_simp
  have h3: "db world_empty = Some (\<lambda>_. Map.empty)" by (simp add: world_empty_def)
  have h4: "(\<lambda>_. Map.empty) ''prepaidcardpurchase'' (inserted_id env_stripe_down) = None"
    by simp
  have h5: "Session_create env_stripe_down (checkout_params env_stripe_down payload_20) =
              Inl (ProviderError ''unreachable'')"
    by (simp add: env_stripe_down_def env_mock_def)
  have i: "inserted_id env_stripe_down = 171" by (simp add: env_stripe_down_def env_mock_def)
  have s: "str_oid 171 = ''0000000000000000000000ab''" by code_simp
  from create_checkout_stripe_fallback [OF h1 h2 h3 h4 h5] h1 h2 h3 h5 show ?thesis
    unfolding i s by blast
qed

section \<open>Checkout creation: the price of a created record\<close>

text \<open>
  C6. Any record that is in the store after \<^verbatim>\<open>create_checkout\<close> and was not there
  before, in whatever way the call ended, has a total price equal to its card price plus
  its selected amount.
\<close>

theorem create_checkout_total_price:
  assumes "create_checkout e payload w = (r, w')"
    and "find_one w c i = None"
    and "find_one w' c i = Some p"
  shows "total_price p = card_price p + amount_selected p"
proof -
  from create_checkout_outcome [OF assms(1)] assms(2,3)
  obtain d p0 where d: "db w = Some d"
    and p0: "new_purchase e (PricingConfig_default e) payload
           (card_issue_price (PricingConfig_default e) + amount payload) = Inr p0"
    and w': "db w' = Some (d(''prepaidcardpurchase'' :=
               (d ''prepaidcardpurchase'')(inserted_id e \<mapsto> p0))) \<or>
             db w' = Some (d(''prepaidcardpurchase'' :=
               (d ''prepaidcardpurchase'')(inserted_id e \<mapsto> mock_paid e p0)))"
    by (auto simp add: find_one_def)
  from assms(2) d have none: "d c i = None" by (simp add: find_one_def)
  from w' assms(3) none have "p = p0 \<or> p = mock_paid e p0"
    by (auto simp add: find_one_def split: if_splits)
  with new_purchase_prices(1) [OF p0] show ?thesis
    by (auto simp add: mock_paid_fields)
qed


theorem create_checkout_total_price_witness:
  "find_one world_ab ''prepaidcardpurchase'' 172 = None \<and>
   (\<exists>p. find_one (snd (create_checkout (env_mock\<lparr>inserted_id := 172\<rparr>) payload_20 world_ab))
          ''prepaidcardpurchase'' 172 = Some p \<and>
        total_price p = card_price p + amount_selected p \<and> total_price p = 25)"
proof -
  let ?e = "env_mock\<lparr>inserted_id := 172\<rparr>"
  let ?p = "\<lparr>customer_name = ''Ana'', customer_email = ''ana@example.com'',
        customer_phone = ''600100200'', amount_selected = 20,
        card_price = 5, total_price = 25,
        payment_provider = mock, payment_status = paid,
        payment_reference = Some ''mock-ok'', delivery_method = recogida,
        created_at = Some 1000, updated_at = Some 1002\<rparr>"
  have h1: "create_checkout ?e payload_20 world_ab =
      (fst (create_checkout ?e payload_20 world_ab), snd (create_checkout ?e payload_20 world_ab))"
    by simp
  have h2: "find_one world_ab ''prepaidcardpurchase'' 172 = None" by code_simp
  have h3: "find_one (snd (create_checkout ?e payload_20 world_ab)) ''prepaidcardpurchase'' 172 =
      Some ?p"
    by code_simp
  from create_checkout_total_price [OF h1 h2 h3] h2 h3 show ?thesis by simp
qed

section \<open>Confirmation with the real provider\<close>

text \<open>
  C2. The run of \<^verbatim>\<open>confirm\<close> in real-provider mode on a session that the payment
  service reports as \<^verbatim>\<open>unpaid\<close>: the store and the output are left as they were, and
  the call fails with status 400. The exception \<^verbatim>\<open>Pago no confirmado\<close> is raised inside
  the \<^verbatim>\<open>try\<close> block, whose own handler catches it, so what leaves the handler is the
  generic confirmation error wrapped around its text and not the exception itself.
\<close>

theorem confirm_unpaid_wrapped:
  "confirm env_stripe_unpaid (Some ''cs_test_1'') None world_ab =
     (Inl (HTTPException 400 ''Error confirmando el pago: 400: Pago no confirmado''), world_ab) \<and>
   fst (confirm env_stripe_unpaid (Some ''cs_test_1'') None world_ab) \<noteq>
     Inl (HTTPException 400 ''Pago no confirmado'')"
proof -
  have h1: "PAYMENT_PROVIDER env_stripe_unpaid = stripe" by code_simp
  have h2: "''cs_test_1'' \<noteq> []" by simp
  have h3: "Session_retrieve env_stripe_unpaid ''cs_test_1'' = Inr session_unpaid"
    by (simp add: env_stripe_unpaid_def)
  have h4: "session_payment_status session_unpaid \<noteq> ''paid''"
    by (simp add: session_unpaid_def)
  have h5: "str_exn env_stripe_unpaid (HTTPException 400 ''Pago no confirmado'') =
              ''400: Pago no confirmado''"
    by code_simp
  from confirm_not_paid [OF h1 h2 h3 h4, of None world_ab] h5
  have "confirm env_stripe_unpaid (Some ''cs_test_1'') None world_ab =
     (Inl (HTTPException 400 ''Error confirmando el pago: 400: Pago no confirmado''), world_ab)"
    by simp
  then show ?thesis by simp
qed

text \<open>
  C10. In real-provider mode, when the retrieved session is paid and carries no metadata
  (absent or empty), \<^verbatim>\<open>confirm\<close> takes the caller's \<^verbatim>\<open>purchase_id\<close>: given that it is
  non-empty and reads as an identifier, the call answers \<^verbatim>\<open>ok\<close> with it and the record
  stored under it, whichever it is, is set to paid with the session identifier as its
  reference. Nothing relates the identifier to the session. After the call that record has
  payment status \<^verbatim>\<open>paid\<close>, the session identifier as payment reference and a new
  update time, its other fields are as before, and every other record is untouched; when
  no record is stored under the identifier, none is created.
\<close>

theorem confirm_paid_without_metadata:
  assumes "PAYMENT_PROVIDER e = stripe" and "sid \<noteq> []"
    and "Session_retrieve e sid = Inr s"
    and "session_payment_status s = ''paid''" and "\<not> has_metadata s"
    and "p \<noteq> []" and "db w = Some d" and "ObjectId p = Inr i"
  shows "\<exists>w'. confirm e (Some sid) (Some p) w =
              (Inr [(''status'', ''ok''), (''purchase_id'', p)], w') \<and>
            db w' = Some (update_one ''prepaidcardpurchase'' i (session_paid e sid) d) \<and>
            find_one w' ''prepaidcardpurchase'' i =
              map_option (session_paid e sid) (find_one w ''prepaidcardpurchase'' i) \<and>
            find_one w' ''prepaidcardpurchase'' i =
              map_option
                (\<lambda>q. q\<lparr>payment_status := paid, payment_reference := Some sid,
                        updated_at := Some (now e 0)\<rparr>)
                (find_one w ''prepaidcardpurchase'' i) \<and>
            (\<forall>q. find_one w ''prepaidcardpurchase'' i = Some q \<longrightarrow>
               (\<exists>q'. find_one w' ''prepaidcardpurchase'' i = Some q' \<and>
                     payment_status q' = paid \<and> payment_reference q' = Some sid \<and>
                     updated_at q' = Some (now e 0) \<and>
                     customer_name q' = customer_name q \<and>
                     customer_email q' = customer_email q \<and>
                     customer_phone q' = customer_phone q \<and>
                     amount_selected q' = amount_selected q \<and>
                     card_price q' = card_price q \<and> total_price q' = total_price q \<and>
                     payment_provider q' = payment_provider q \<and>
                     delivery_method q' = delivery_method q \<and>
                     created_at q' = created_at q)) \<and>
            (\<forall>c j. (c, j) \<noteq> (''prepaidcardpurchase'', i) \<longrightarrow>
               find_one w' c j = find_one w c j)"
proof -
  have "\<exists>w1. confirm_try e sid (Some p) w =
               (Inr [(''status'', ''ok''), (''purchase_id'', p)], w1) \<and>
             db w1 = Some (update_one ''prepaidcardpurchase'' i (session_paid e sid) d)"
    using assms(3-8)
    by (auto simp add: confirm_try_def Let_def truthy_def db_send_confirmation_email
             split: option.splits)
  then obtain w1 where run:
    "confirm_try e sid (Some p) w = (Inr [(''status'', ''ok''), (''purchase_id'', p)], w1)"
    and w1: "db w1 = Some (update_one ''prepaidcardpurchase'' i (session_paid e sid) d)"
    by blast
  from run assms(1,2) have res: "confirm e (Some sid) (Some p) w =
      (Inr [(''status'', ''ok''), (''purchase_id'', p)], w1)"
    by (simp add: confirm_def)
  have at: "find_one w1 ''prepaidcardpurchase'' i =
      map_option (session_paid e sid) (find_one w ''prepaidcardpurchase'' i)"
    using w1 assms(7) by (simp add: find_one_def update_one_find)
  have sp: "session_paid e sid =
      (\<lambda>q. q\<lparr>payment_status := paid, payment_reference := Some sid,
              updated_at := Some (now e 0)\<rparr>)"
    by (rule ext) (simp add: session_paid_def)
  have fields: "\<exists>q'. find_one w1 ''prepaidcardpurchase'' i = Some q' \<and>
                     payment_status q' = paid \<and> payment_reference q' = Some sid \<and>
                     updated_at q' = Some (now e 0) \<and>
                     customer_name q' = customer_name q \<and>
                     customer_email q' = customer_email q \<and>
                     customer_phone q' = customer_phone q \<and>
                     amount_selected q' = amount_selected q \<and>
                     card_price q' = card_price q \<and> total_price q' = total_price q \<and>
                     payment_provider q' = payment_provider q \<and>
                     delivery_method q' = delivery_method q \<and>
                     created_at q' = created_at q"
    if "find_one w ''prepaidcardpurchase'' i = Some q" for q
    using at that by (simp add: session_paid_def)
  have others: "find_one w1 c j = find_one w c j"
    if "(c, j) \<noteq> (''prepaidcardpurchase'', i)" for c j
    using w1 assms(7) that by (auto simp add: find_one_def update_one_find)
  from res w1 at fields others show ?thesis
    unfolding sp [symmetric] by blast
qed

theorem confirm_paid_without_metadata_witness:
  "PAYMENT_PROVIDER env_stripe_paid_bare = stripe \<and>
   Session_retrieve env_stripe_paid_bare ''cs_test_1'' = Inr session_paid_bare \<and>
   session_payment_status session_paid_bare = ''paid'' \<and> \<not> has_metadata session_paid_bare \<and>
   ObjectId ''0000000000000000000000ab'' = Inr 171 \<and>
   find_one world_ab ''prepaidcardpurchase'' 171 = Some purchase_ab \<and>
   payment_status purchase_ab = pending \<and>
   (\<exists>w'. confirm env_stripe_paid_bare (Some ''cs_test_1'')
            (Some ''0000000000000000000000ab'') world_ab =
            (Inr [(''status'', ''ok''), (''purchase_id'', ''0000000000000000000000ab'')], w') \<and>
          find_one w' ''prepaidcardpurchase'' 171 =
            Some (session_paid env_stripe_paid_bare ''cs_test_1'' purchase_ab) \<and>
          find_one w' ''prepaidcardpurchase'' 171 =
            Some (purchase_ab\<lparr>payment_status := paid,
                    payment_reference := Some ''cs_test_1'', updated_at := Some 1000\<rparr>) \<and>
          find_one w' ''prepaidcardpurchase'' 172 = None)"
proof -
  let ?d = "(\<lambda>_. Map.empty)(''prepaidcardpurchase'' := [171 \<mapsto> purchase_ab])"
  have h1: "PAYMENT_PROVIDER env_stripe_paid_bare = stripe" by code_simp
  have h2: "''cs_test_1'' \<noteq> []" by simp
  have h3: "Session_retrieve env_stripe_paid_bare ''cs_test_1'' = Inr session_paid_bare"
    by (simp add: env_stripe_paid_bare_def)
  have h4: "session_payment_status session_paid_bare = ''paid''"
    by (simp add: session_paid_bare_def)
  have h5: "\<not> has_metadata session_paid_bare"
    by (simp add: has_metadata_def session_paid_bare_def)
  have h6: "''0000000000000000000000ab'' \<noteq> []" by simp
  have h7: "db world_ab = Some ?d" by (simp add: world_ab_def)
  have h8: "ObjectId ''0000000000000000000000ab'' = Inr 171" by code_simp
  have f: "find_one world_ab ''prepaidcardpurchase'' 171 = Some purchase_ab"
    by (simp add: find_one_def world_ab_def)
  have g: "find_one world_ab ''prepaidcardpurchase'' 172 = None"
    by (simp add: find_one_def world_ab_def)
  have st: "payment_status purchase_ab = pending" by (simp add: purchase_ab_def)
  have t: "now env_stripe_paid_bare 0 = 1000"
    by (simp add: env_stripe_paid_bare_def env_stripe_down_def env_mock_def)
  have ne: "(''prepaidcardpurchase'', 172 :: oid) \<noteq> (''prepaidcardpurchase'', 171)" by simp
  from confirm_paid_without_metadata [OF h1 h2 h3 h4 h5 h6 h7 h8]
  obtain w' where
    r: "confirm env_stripe_paid_bare (Some ''cs_test_1'')
          (Some ''0000000000000000000000ab'') world_ab =
          (Inr [(''status'', ''ok''), (''purchase_id'', ''0000000000000000000000ab'')], w')"
    and a: "find_one w' ''prepaidcardpurchase'' 171 =
          map_option (session_paid env_stripe_paid_bare ''cs_test_1'')
            (find_one world_ab ''prepaidcardpurchase'' 171)"
    and b: "find_one w' ''prepaidcardpurchase'' 171 =
          map_option
            (\<lambda>q. q\<lparr>payment_status := paid, payment_reference := Some ''cs_test_1'',
                    updated_at := Some (now env_stripe_paid_bare 0)\<rparr>)
            (find_one world_ab ''prepaidcardpurchase'' 171)"
    and o: "\<forall>c j. (c, j) \<noteq> (''prepaidcardpurchase'', 171) \<longrightarrow>
              find_one w' c j = find_one world_ab c j"
    by blast
  from o ne g have "find_one w' ''prepaidcardpurchase'' 172 = None" by metis
  with r a b f t h1 h3 h4 h5 h8 st show ?thesis by auto
qed

section \<open>Missing parameters of confirmation\<close>

text \<open>
  C8. \<^verbatim>\<open>confirm\<close> fails with the HTTP 400 exception \<^verbatim>\<open>Falta session_id\<close> exactly when
  the provider is the real one and \<^verbatim>\<open>session_id\<close> is missing, and with the HTTP 400
  exception \<^verbatim>\<open>Falta purchase_id\<close> exactly when the provider is mock and
  \<^verbatim>\<open>purchase_id\<close> is missing. Missing is what the handler tests with \<^verbatim>\<open>not\<close>: not
  supplied, or supplied empty.
\<close>

theorem confirm_missing_parameter:
  "(fst (confirm e session_id purchase_id w) = Inl (HTTPException 400 ''Falta session_id'') \<longleftrightarrow>
      PAYMENT_PROVIDER e = stripe \<and> \<not> truthy session_id) \<and>
   (fst (confirm e session_id purchase_id w) = Inl (HTTPException 400 ''Falta purchase_id'') \<longleftrightarrow>
      PAYMENT_PROVIDER e = mock \<and> \<not> truthy purchase_id)"
proof -
  obtain r w' where run: "confirm e session_id purchase_id w = (r, w')" by force
  from confirm_outcome [OF run] show ?thesis
    unfolding run by (auto simp add: truthy_def)
qed

theorem confirm_missing_parameter_witness:
  "PAYMENT_PROVIDER env_stripe_down = stripe \<and> \<not> truthy None \<and>
   fst (confirm env_stripe_down None (Some ''0000000000000000000000ab'') world_ab) =
     Inl (HTTPException 400 ''Falta session_id'') \<and>
   PAYMENT_PROVIDER env_mock = mock \<and> \<not> truthy (Some '''') \<and>
   fst (confirm env_mock (Some ''cs_test_1'') (Some '''') world_ab) =
     Inl (HTTPException 400 ''Falta purchase_id'') \<and>
   truthy (Some ''cs_test_1'') \<and>
   fst (confirm env_stripe_unpaid (Some ''cs_test_1'') None world_ab) \<noteq>
     Inl (HTTPException 400 ''Falta session_id'')"
proof -
  have h1: "PAYMENT_PROVIDER env_stripe_down = stripe" by code_simp
  have h2: "\<not> truthy None" by (simp add: truthy_def)
  have h3: "PAYMENT_PROVIDER env_mock = mock" by code_simp
  have h4: "\<not> truthy (Some '''')" by (simp add: truthy_def)
  have h5: "truthy (Some ''cs_test_1'')" by (simp add: truthy_def)
  from confirm_missing_parameter [of env_stripe_down None "Some ''0000000000000000000000ab''" world_ab]
    confirm_missing_parameter [of env_mock "Some ''cs_test_1''" "Some ''''" world_ab]
    confirm_missing_parameter [of env_stripe_unpaid "Some ''cs_test_1''" None world_ab]
    h1 h2 h3 h4 h5
  show ?thesis by simp
qed

section \<open>Life cycle of the payment status\<close>

text \<open>
  C7. A record enters the store only through \<^verbatim>\<open>create_checkout\<close>, built with payment
  status \<^verbatim>\<open>pending\<close>, and is there after the call either as built or as the mock path
  marked it paid; \<^verbatim>\<open>confirm\<close> creates no record. Over any sequence of requests a stored
  record stays stored, and its payment status is either what it was or \<^verbatim>\<open>paid\<close>: a
  status other than \<^verbatim>\<open>pending\<close> never becomes \<^verbatim>\<open>pending\<close> again.
\<close>

theorem payment_status_lifecycle:
  "(\<forall>e payload w r w' c i p.
      create_checkout e payload w = (r, w') \<longrightarrow> find_one w c i = None \<longrightarrow>
      find_one w' c i = Some p \<longrightarrow>
      (\<exists>p0. new_purchase e (PricingConfig_default e) payload
               (card_issue_price (PricingConfig_default e) + amount payload) = Inr p0 \<and>
            payment_status p0 = pending \<and> (p = p0 \<or> p = mock_paid e p0))) \<and>
   (\<forall>e session_id purchase_id w r w' c i.
      confirm e session_id purchase_id w = (r, w') \<longrightarrow> find_one w c i = None \<longrightarrow>
      find_one w' c i = None) \<and>
   (\<forall>w w' c i p.
      step\<^sup>*\<^sup>* w w' \<longrightarrow> find_one w c i = Some p \<longrightarrow>
      (\<exists>p'. find_one w' c i = Some p' \<and>
            (payment_status p' = payment_status p \<or> payment_status p' = paid) \<and>
            (payment_status p \<noteq> pending \<longrightarrow> payment_status p' \<noteq> pending)))"
proof (intro conjI allI impI)
  fix e payload w r w' c i p
  assume run: "create_checkout e payload w = (r, w')"
    and none: "find_one w c i = None" and some: "find_one w' c i = Some p"
  from create_checkout_outcome [OF run] none some
  obtain d p0 where d: "db w = Some d"
    and p0: "new_purchase e (PricingConfig_default e) payload
           (card_issue_price (PricingConfig_default e) + amount payload) = Inr p0"
    and w': "db w' = Some (d(''prepaidcardpurchase'' :=
               (d ''prepaidcardpurchase'')(inserted_id e \<mapsto> p0))) \<or>
             db w' = Some (d(''prepaidcardpurchase'' :=
               (d ''prepaidcardpurchase'')(inserted_id e \<mapsto> mock_paid e p0)))"
    by (auto simp add: find_one_def)
  from none d have "d c i = None" by (simp add: find_one_def)
  with w' some have "p = p0 \<or> p = mock_paid e p0"
    by (auto simp add: find_one_def split: if_splits)
  with p0 new_purchase_prices(2) [OF p0]
  show "\<exists>p0. new_purchase e (PricingConfig_default e) payload
               (card_issue_price (PricingConfig_default e) + amount payload) = Inr p0 \<and>
            payment_status p0 = pending \<and> (p = p0 \<or> p = mock_paid e p0)"
    by blast
next
  fix e session_id purchase_id w r w' c i
  assume "confirm e session_id purchase_id w = (r, w')" and "find_one w c i = None"
  with confirm_keeps [of e session_id purchase_id w r w' c i]
  show "find_one w' c i = None" by auto
next
  fix w w' c i p
  assume "step\<^sup>*\<^sup>* w w'" and "find_one w c i = Some p"
  from steps_status [OF this]
  show "\<exists>p'. find_one w' c i = Some p' \<and>
            (payment_status p' = payment_status p \<or> payment_status p' = paid) \<and>
            (payment_status p \<noteq> pending \<longrightarrow> payment_status p' \<noteq> pending)"
    by auto
qed

theorem payment_status_lifecycle_witness:
  "find_one world_empty ''prepaidcardpurchase'' 171 = None \<and>
   (\<exists>p0. find_one (snd (create_checkout env_mock payload_20 world_empty))
            ''prepaidcardpurchase'' 171 = Some (mock_paid env_mock p0) \<and>
         payment_status p0 = pending) \<and>
   find_one world_ab ''prepaidcardpurchase'' 172 = None \<and>
   find_one (snd (confirm env_stripe_paid_bare (Some ''cs_test_1'')
                    (Some ''0000000000000000000000ac'') world_ab))
      ''prepaidcardpurchase'' 172 = None \<and>
   payment_status purchase_ab = pending \<and>
   (\<exists>p'. find_one
           (snd (create_checkout env_mock payload_15
              (snd (confirm env_stripe_paid_bare (Some ''cs_test_1'')
                      (Some ''0000000000000000000000ab'') world_ab))))
           ''prepaidcardpurchase'' 171 = Some p' \<and>
         payment_status p' = paid)"
proof -
  let ?C = "''prepaidcardpurchase''"
  let ?w1 = "snd (create_checkout env_mock payload_20 world_empty)"
  let ?w2 = "snd (confirm env_stripe_paid_bare (Some ''cs_test_1'')
                    (Some ''0000000000000000000000ac'') world_ab)"
  let ?w3 = "snd (confirm env_stripe_paid_bare (Some ''cs_test_1'')
                    (Some ''0000000000000000000000ab'') world_ab)"
  let ?w4 = "snd (create_checkout env_mock payload_15 ?w3)"
  note L = payment_status_lifecycle
  have a1: "create_checkout env_mock payload_20 world_empty =
              (fst (create_checkout env_mock payload_20 world_empty), ?w1)" by simp
  have a2: "find_one world_empty ?C 171 = None" by code_simp
  have a3: "find_one ?w1 ?C 171 =
     Some \<lparr>customer_name = ''Ana'', customer_email = ''ana@example.com'',
        customer_phone = ''600100200'', amount_selected = 20,
        card_price = 5, total_price = 25,
        payment_provider = mock, payment_status = paid,
        payment_reference = Some ''mock-ok'', delivery_method = recogida,
        created_at = Some 1000, updated_at = Some 1002\<rparr>" by code_simp
  from L [THEN conjunct1, rule_format, OF a1 a2 a3]
  obtain p0 where p0: "payment_status p0 = pending"
    "\<lparr>customer_name = ''Ana'', customer_email = ''ana@example.com'',
        customer_phone = ''600100200'', amount_selected = 20,
        card_price = 5, total_price = 25,
        payment_provider = mock, payment_status = paid,
        payment_reference = Some ''mock-ok'', delivery_method = recogida,
        created_at = Some 1000, updated_at = Some 1002\<rparr> = p0 \<or>
     \<lparr>customer_name = ''Ana'', customer_email = ''ana@example.com'',
        customer_phone = ''600100200'', amount_selected = 20,
        card_price = 5, total_price = 25,
        payment_provider = mock, payment_status = paid,
        payment_reference = Some ''mock-ok'', delivery_method = recogida,
        created_at = Some 1000, updated_at = Some 1002\<rparr> = mock_paid env_mock p0"
    by blast
  then have first: "\<exists>p0. find_one ?w1 ?C 171 = Some (mock_paid env_mock p0) \<and>
         payment_status p0 = pending"
    using a3 by auto
  have b1: "confirm env_stripe_paid_bare (Some ''cs_test_1'')
                    (Some ''0000000000000000000000ac'') world_ab =
        (fst (confirm env_stripe_paid_bare (Some ''cs_test_1'')
                    (Some ''0000000000000000000000ac'') world_ab), ?w2)" by simp
  have b2: "find_one world_ab ?C 172 = None" by code_simp
  note second = L [THEN conjunct2, THEN conjunct1, rule_format, OF b1 b2]
  have s1: "step world_ab ?w3"
    by (rule step.confirmation [of env_stripe_paid_bare "Some ''cs_test_1''"
          "Some ''0000000000000000000000ab''" world_ab _ ?w3]) (rule prod.collapse [symmetric])
  have s2: "step ?w3 ?w4"
    by (rule step.checkout [of env_mock payload_15 ?w3 _ ?w4]) (rule prod.collapse [symmetric])
  from s1 s2 have c1: "step\<^sup>*\<^sup>* world_ab ?w4" by auto
  have c2: "find_one world_ab ?C 171 = Some purchase_ab" by code_simp
  have c3: "payment_status purchase_ab = pending" by code_simp
  from L [THEN conjunct2, THEN conjunct2, rule_format, OF c1 c2]
  obtain p' where p': "find_one ?w4 ?C 171 = Some p'"
    "payment_status p' = payment_status purchase_ab \<or> payment_status p' = paid" by blast
  have c4: "map_option payment_status (find_one ?w4 ?C 171) = Some paid" by code_simp
  with p' have third: "\<exists>p'. find_one ?w4 ?C 171 = Some p' \<and> payment_status p' = paid" by auto
  from a2 first b2 second c3 third show ?thesis by blast
qed

end
